theory Spec2Isabelle
  imports Main "HOL-Library.Sublist"
begin

section \<open>Python values, errors and containers\<close>

text \<open>
  The backbone \<^verbatim>\<open>EvoViTAdapter\<close> of \<^verbatim>\<open>mmdet_custom/models/backbones/evovit_adapter.py\<close>
  is embedded as pure functions. A Python exception is a value of \<open>error\<close>; a computation
  that may raise returns \<open>error + 'a\<close> with \<open>Inl\<close> the exception. Assertions are taken as
  enabled (the interpreter is not run with \<^verbatim>\<open>-O\<close>).
\<close>

datatype error =
    KeyError string
  | AssertionError string
  | TypeError string
  | IndexError string
  | ValueError string
  | RuntimeError string

text \<open>
  The values a keyword argument can hold. \<open>PyObj\<close> stands for every object that is
  neither \<^verbatim>\<open>None\<close>, a bool, an int nor a str (a float, a class, a callable); such an
  object is never identical to \<^verbatim>\<open>False\<close> or \<^verbatim>\<open>None\<close>.
\<close>

datatype 'h pyval = PyNone | PyBool bool | PyInt int | PyStr string | PyObj 'h

text \<open>\<^verbatim>\<open>d.pop(key)\<close> with no default: the value and the dict without the key, or KeyError.\<close>

definition dict_pop :: "(string \<rightharpoonup> 'v) \<Rightarrow> string \<Rightarrow> error + ('v \<times> (string \<rightharpoonup> 'v))" where
  "dict_pop d key = (case d key of None \<Rightarrow> Inl (KeyError key) | Some v \<Rightarrow> Inr (v, d(key := None)))"

text \<open>\<^verbatim>\<open>xs[i]\<close> on a list: a negative index counts from the end, out of range raises.\<close>

definition py_getitem :: "'a list \<Rightarrow> int \<Rightarrow> error + 'a" where
  "py_getitem xs i =
     (let n = int (length xs); j = (if i < 0 then i + n else i)
      in if 0 \<le> j \<and> j < n then Inr (xs ! nat j) else Inl (IndexError ''list index out of range''))"

text \<open>
  A slice bound, adjusted as CPython does for step 1: a negative bound counts from the
  end, and the result is clamped to \<open>[0, n]\<close>.
\<close>

definition slice_bound :: "nat \<Rightarrow> int \<Rightarrow> nat" where
  "slice_bound n i =
     (if i < 0 then (if i + int n < 0 then 0 else nat (i + int n))
      else if int n < i then n else nat i)"

text \<open>\<^verbatim>\<open>xs[lo:hi]\<close>; \<open>None\<close> is an omitted bound. An empty range gives the empty list.\<close>

definition py_slice :: "'a list \<Rightarrow> int option \<Rightarrow> int option \<Rightarrow> 'a list" where
  "py_slice xs lo hi =
     (let n = length xs;
          a = (case lo of None \<Rightarrow> 0 | Some i \<Rightarrow> slice_bound n i);
          b = (case hi of None \<Rightarrow> n | Some j \<Rightarrow> slice_bound n j)
      in take (b - a) (drop a xs))"

text \<open>The number of entries of \<^verbatim>\<open>xs[lo:hi]\<close> for a sequence of \<open>n\<close> entries.\<close>

definition py_slice_len :: "nat \<Rightarrow> int option \<Rightarrow> int option \<Rightarrow> nat" where
  "py_slice_len n lo hi =
     (let a = (case lo of None \<Rightarrow> 0 | Some i \<Rightarrow> slice_bound n i);
          b = (case hi of None \<Rightarrow> n | Some j \<Rightarrow> slice_bound n j)
      in b - a)"

text \<open>\<^verbatim>\<open>enumerate(xs)\<close>, as the list of its pairs.\<close>

definition enumerate_from :: "nat \<Rightarrow> 'a list \<Rightarrow> (nat \<times> 'a) list" where
  "enumerate_from k xs = zip [k ..< k + length xs] xs"

definition py_enumerate :: "'a list \<Rightarrow> (nat \<times> 'a) list" where
  "py_enumerate xs = enumerate_from 0 xs"

section \<open>Computations that log the calls they make\<close>

text \<open>
  A computation is its outcome together with the events it logged, in order. The log
  records every call of a collaborator or tensor operation (the call is logged even when
  it raises), so that "nothing was executed before the error" is the empty log.
\<close>

type_synonym ('ev, 'a) comp = "(error + 'a) \<times> 'ev list"

definition ret :: "'a \<Rightarrow> ('ev, 'a) comp" where
  "ret a = (Inr a, [])"

definition raise :: "error \<Rightarrow> ('ev, 'a) comp" where
  "raise e = (Inl e, [])"

definition lift :: "error + 'a \<Rightarrow> ('ev, 'a) comp" where
  "lift r = (r, [])"

definition call :: "'ev \<Rightarrow> error + 'a \<Rightarrow> ('ev, 'a) comp" where
  "call ev r = (r, [ev])"

definition bind :: "('ev, 'a) comp \<Rightarrow> ('a \<Rightarrow> ('ev, 'b) comp) \<Rightarrow> ('ev, 'b) comp" where
  "bind m f =
     (case m of
        (Inl e, evs) \<Rightarrow> (Inl e, evs)
      | (Inr a, evs) \<Rightarrow> (case f a of (r, evs') \<Rightarrow> (r, evs @ evs')))"

definition py_assert :: "bool \<Rightarrow> string \<Rightarrow> ('ev, unit) comp" where
  "py_assert ok msg = (if ok then ret () else raise (AssertionError msg))"

section \<open>The module and its construction\<close>

text \<open>
  The base class \<^verbatim>\<open>EvoVisionTransformer\<close> (\<^verbatim>\<open>base/evo_deit.py\<close>) is not part of the
  sources at hand. The record below holds the attributes of it that the adapter reads or
  overwrites; \<open>'t\<close> is the type of tensors, \<open>'b\<close> the type of the sub-modules kept in
  the per-block lists, \<open>'h\<close> the type of opaque hyper-parameters (floats, classes).
  Its constructor is a parameter of the adapter's constructor.
\<close>

record ('t, 'b, 'h) evo_vit =
  blocks :: "'b list"
  norms :: "'b list"
  vs :: "'b list"
  qks :: "'b list"
  projs :: "'b list"
  embed_dim :: int
  drop_path_rate :: 'h
  norm_layer :: 'h
  cls_token :: 't
  pos_embed :: 't
  prune_ratio :: 'h
  tradeoff :: 'h
  norm :: "'b option"
  head :: "'b option"
  norm_cls :: "'b option"
  head_cls :: "'b option"
  stage_wise_prune :: bool
  num_classes :: int

text \<open>The constructor arguments of the sub-modules the adapter builds.\<close>

record spm_cfg =
  spm_inplanes :: int
  spm_embed_dim :: int

record 'h interaction_cfg =
  ib_dim :: int
  ib_num_heads :: int
  ib_n_points :: int
  ib_init_values :: 'h
  ib_drop_path :: 'h
  ib_norm_layer :: 'h
  ib_with_cffn :: bool
  ib_cffn_ratio :: 'h
  ib_deform_ratio :: 'h
  ib_extra_extractor :: bool

record conv_transpose_cfg =
  ct_in_channels :: int
  ct_out_channels :: int
  ct_kernel_size :: int
  ct_stride :: int

record sync_bn_cfg =
  bn_num_features :: int

text \<open>
  The adapter extends the base class, as the Python class does. The learned numbers of
  the sub-modules (set by the weight initialisers, from a random source) are not part of
  the record: a sub-module is held as the arguments it was built from.
\<close>

record ('t, 'b, 'h) evovit_adapter = "('t, 'b, 'h) evo_vit" +
  num_block :: nat
  pretrain_size :: "int \<times> int"
  interaction_indexes :: "int list list"
  add_vit_feature :: bool
  level_embed :: 't
  spm :: spm_cfg
  interactions :: "'h interaction_cfg list"
  up :: conv_transpose_cfg
  norm1 :: sync_bn_cfg
  norm2 :: sync_bn_cfg
  norm3 :: sync_bn_cfg
  norm4 :: sync_bn_cfg

text \<open>The named parameters of \<^verbatim>\<open>__init__\<close> (lines 21-23), with their defaults below.\<close>

record 'h ctor_args =
  arg_pretrain_size :: int
  arg_num_heads :: int
  arg_conv_inplane :: int
  arg_n_points :: int
  arg_deform_num_heads :: int
  arg_init_values :: 'h
  arg_interaction_indexes :: "int list list option"
  arg_with_cffn :: bool
  arg_cffn_ratio :: 'h
  arg_deform_ratio :: 'h
  arg_add_vit_feature :: bool
  arg_use_extra_extractor :: bool

text \<open>What construction has built so far, in order.\<close>

datatype build_event =
    BuildBase
  | BuildLevelEmbed
  | BuildSpm
  | BuildInteraction nat
  | BuildUp
  | BuildNorm nat
  | InitWeights

text \<open>Lines 47-54: one interaction block per entry of \<^verbatim>\<open>interaction_indexes\<close>.\<close>

definition mk_interaction ::
  "('t, 'b, 'h) evo_vit \<Rightarrow> 'h ctor_args \<Rightarrow> nat \<Rightarrow> nat \<Rightarrow> 'h interaction_cfg" where
  "mk_interaction base a n i =
     \<lparr> ib_dim = embed_dim base, ib_num_heads = arg_deform_num_heads a,
       ib_n_points = arg_n_points a, ib_init_values = arg_init_values a,
       ib_drop_path = drop_path_rate base, ib_norm_layer = norm_layer base,
       ib_with_cffn = arg_with_cffn a, ib_cffn_ratio = arg_cffn_ratio a,
       ib_deform_ratio = arg_deform_ratio a,
       ib_extra_extractor = ((if int i = int n - 1 then True else False) \<and> arg_use_extra_extractor a) \<rparr>"

fun build_interactions ::
  "('t, 'b, 'h) evo_vit \<Rightarrow> 'h ctor_args \<Rightarrow> nat \<Rightarrow> nat list \<Rightarrow> (build_event, 'h interaction_cfg list) comp" where
  "build_interactions base a n [] = ret []"
| "build_interactions base a n (i # is) =
     bind (call (BuildInteraction i) (Inr (mk_interaction base a n i))) (\<lambda>l.
     bind (build_interactions base a n is) (\<lambda>ls. ret (l # ls)))"

text \<open>
  \<^verbatim>\<open>__init__\<close>, lines 25-65. \<open>super_init\<close> is the base class's constructor, called with
  the positional arguments, \<^verbatim>\<open>num_heads\<close> and the keyword arguments left after the four
  pops; \<open>level_init\<close> gives the level embedding of lines 44 and 65 for an embedding
  dimension. \<^verbatim>\<open>len(None)\<close> at line 53 is a TypeError.
\<close>

definition EvoViTAdapter_init ::
  "('h pyval list \<Rightarrow> int \<Rightarrow> (string \<rightharpoonup> 'h pyval) \<Rightarrow> error + ('t, 'b, 'h) evo_vit) \<Rightarrow> (int \<Rightarrow> 't) \<Rightarrow>
   'h ctor_args \<Rightarrow> 'h pyval list \<Rightarrow> (string \<rightharpoonup> 'h pyval) \<Rightarrow>
   (build_event, ('t, 'b, 'h) evovit_adapter) comp" where
  "EvoViTAdapter_init super_init level_init a args kwargs =
     bind (lift (dict_pop kwargs ''window_attn'')) (\<lambda>(window_attn, kwargs).
     bind (lift (dict_pop kwargs ''window_size'')) (\<lambda>(window_size, kwargs).
     bind (lift (dict_pop kwargs ''layer_scale'')) (\<lambda>(layer_scale, kwargs).
     bind (py_assert (layer_scale = PyBool False)
             ''Pytorch Better Transformer does not support layer scale'') (\<lambda>_.
     bind (lift (dict_pop kwargs ''pretrained'')) (\<lambda>(pretrained, kwargs).
     bind (py_assert (pretrained = PyNone) ''use load_from instead of pretrained'') (\<lambda>_.
     bind (call BuildBase (super_init args (arg_num_heads a) kwargs)) (\<lambda>base.
     let base = base\<lparr> norm := None, head := None, norm_cls := None, head_cls := None,
                      stage_wise_prune := False, num_classes := 80 \<rparr>;
         D = embed_dim base
     in
     bind (call BuildLevelEmbed (Inr (level_init D))) (\<lambda>lvl.
     bind (call BuildSpm (Inr \<lparr> spm_inplanes = arg_conv_inplane a, spm_embed_dim = D \<rparr>)) (\<lambda>spm_m.
     bind (lift (case arg_interaction_indexes a of
                   None \<Rightarrow> Inl (TypeError ''object of type NoneType has no len()'')
                 | Some ixs \<Rightarrow> Inr ixs)) (\<lambda>ixs.
     bind (build_interactions base a (length ixs) [0 ..< length ixs]) (\<lambda>layers.
     bind (call BuildUp (Inr \<lparr> ct_in_channels = D, ct_out_channels = D,
                               ct_kernel_size = 2, ct_stride = 2 \<rparr>)) (\<lambda>up_m.
     bind (call (BuildNorm 1) (Inr \<lparr> bn_num_features = D \<rparr>)) (\<lambda>n1.
     bind (call (BuildNorm 2) (Inr \<lparr> bn_num_features = D \<rparr>)) (\<lambda>n2.
     bind (call (BuildNorm 3) (Inr \<lparr> bn_num_features = D \<rparr>)) (\<lambda>n3.
     bind (call (BuildNorm 4) (Inr \<lparr> bn_num_features = D \<rparr>)) (\<lambda>n4.
     bind (call InitWeights (Inr ())) (\<lambda>_.
     ret (evo_vit.extend base
            (evovit_adapter.fields (length (blocks base))
               (arg_pretrain_size a, arg_pretrain_size a) ixs (arg_add_vit_feature a)
               lvl spm_m layers up_m n1 n2 n3 n4)))))))))))))))))))"

text \<open>
  The error that lines 25-28 raise, if any: the four statements read in order. It is
  related to \<open>EvoViTAdapter_init\<close> by the lemmas \<open>init_first_error_fails\<close> and
  \<open>init_first_error_passes\<close> below.
\<close>

definition init_first_error :: "(string \<rightharpoonup> 'h pyval) \<Rightarrow> error option" where
  "init_first_error kw =
     (if kw ''window_attn'' = None then Some (KeyError ''window_attn'')
      else if kw ''window_size'' = None then Some (KeyError ''window_size'')
      else if kw ''layer_scale'' = None then Some (KeyError ''layer_scale'')
      else if kw ''layer_scale'' \<noteq> Some (PyBool False)
        then Some (AssertionError ''Pytorch Better Transformer does not support layer scale'')
      else if kw ''pretrained'' = None then Some (KeyError ''pretrained'')
      else if kw ''pretrained'' \<noteq> Some PyNone
        then Some (AssertionError ''use load_from instead of pretrained'')
      else None)"

section \<open>The forward pass\<close>

text \<open>
  Tensors are values of a type \<open>'t\<close>. What the forward pass does with them goes through
  the operations of the record \<open>ops\<close>: the collaborators of the repository that are not
  part of the sources at hand (\<^verbatim>\<open>deform_inputs\<close>, \<^verbatim>\<open>SpatialPriorModule\<close>,
  \<^verbatim>\<open>InteractionBlockForEvo\<close>, the base class's \<^verbatim>\<open>patch_embed\<close> and \<^verbatim>\<open>pos_drop\<close>), the
  learned torch modules (\<^verbatim>\<open>ConvTranspose2d\<close>, \<^verbatim>\<open>SyncBatchNorm\<close>) and the torch
  primitives. Each of them may raise. \<open>'d\<close> is the type of the deformable-attention
  inputs.
\<close>

datatype interp_mode = Bicubic | Bilinear

text \<open>\<^verbatim>\<open>F.interpolate\<close> is given either \<^verbatim>\<open>size=(H, W)\<close> or a scale factor, here the fraction \<open>p/q\<close>.\<close>

datatype interp_arg = Size int int | ScaleFactor int int

datatype opname =
    OpDeformInputs | OpSpm | OpPatchEmbed | OpPosDrop | OpUp | OpNorm nat
  | OpAdd | OpGetItem | OpCat | OpExpand | OpSlice | OpReshape | OpPermute
  | OpTranspose | OpView | OpContiguous | OpInterpolate interp_mode

text \<open>The accumulator \<^verbatim>\<open>cls_attn\<close>: the Python int it starts as, or what a stage returned.\<close>

datatype 't attn = AttnInt int | AttnTensor 't

text \<open>
  The log of a forward pass: every operation called, and for a stage its number, its
  \<^verbatim>\<open>indexes\<close>, the slice of blocks it is given and the accumulator it receives;
  \<open>StageRet\<close> records the accumulator a stage returned.
\<close>

datatype ('t, 'b) event =
    Op opname
  | StageCall nat "int list" "'b list" "'t attn"
  | StageRet "'t attn"

text \<open>The sixteen arguments of a stage (lines 121-124).\<close>

record ('t, 'd, 'b, 'h) stage_args =
  sa_cls_token :: 't
  sa_x :: 't
  sa_c :: 't
  sa_indexes :: "int list"
  sa_blocks :: "'b list"
  sa_norms :: "'b list"
  sa_vs :: "'b list"
  sa_qks :: "'b list"
  sa_projs :: "'b list"
  sa_deform_inputs1 :: 'd
  sa_deform_inputs2 :: 'd
  sa_H :: int
  sa_W :: int
  sa_prune_ratio :: 'h
  sa_tradeoff :: 'h
  sa_cls_attn :: "'t attn"

record ('t, 'd, 'b, 'h) ops =
  op_deform_inputs :: "'t \<Rightarrow> error + ('d \<times> 'd)"
  op_spm :: "spm_cfg \<Rightarrow> 't \<Rightarrow> error + ('t \<times> 't \<times> 't \<times> 't)"
  op_patch_embed :: "'t \<Rightarrow> error + ('t \<times> int \<times> int)"
  op_pos_drop :: "'t \<Rightarrow> error + 't"
  op_layer :: "'h interaction_cfg \<Rightarrow> ('t, 'd, 'b, 'h) stage_args \<Rightarrow> error + ('t \<times> 't \<times> 't \<times> 't attn)"
  op_up :: "conv_transpose_cfg \<Rightarrow> 't \<Rightarrow> error + 't"
  op_norm :: "nat \<Rightarrow> sync_bn_cfg \<Rightarrow> 't \<Rightarrow> error + 't"
  op_add :: "'t \<Rightarrow> 't \<Rightarrow> error + 't"
  op_getitem :: "'t \<Rightarrow> int \<Rightarrow> error + 't"
  op_cat :: "'t list \<Rightarrow> int \<Rightarrow> error + 't"
  op_shape :: "'t \<Rightarrow> int list"
  op_size :: "'t \<Rightarrow> int \<Rightarrow> error + int"
  op_expand :: "'t \<Rightarrow> int list \<Rightarrow> error + 't"
  op_slice :: "'t \<Rightarrow> nat \<Rightarrow> int option \<Rightarrow> int option \<Rightarrow> error + 't"
  op_reshape :: "'t \<Rightarrow> int list \<Rightarrow> error + 't"
  op_permute :: "'t \<Rightarrow> int list \<Rightarrow> error + 't"
  op_transpose :: "'t \<Rightarrow> int \<Rightarrow> int \<Rightarrow> error + 't"
  op_view :: "'t \<Rightarrow> int list \<Rightarrow> error + 't"
  op_contiguous :: "'t \<Rightarrow> 't"
  op_interpolate :: "'t \<Rightarrow> interp_arg \<Rightarrow> interp_mode \<Rightarrow> bool \<Rightarrow> error + 't"

text \<open>
  \<open>op_slice t k lo hi\<close> is \<^verbatim>\<open>t[:, lo:hi]\<close> for \<open>k = 2\<close> and \<^verbatim>\<open>t[:, lo:hi, :]\<close> for
  \<open>k = 3\<close>; \<open>op_size t d\<close> is \<^verbatim>\<open>t.size(d)\<close>. Reading a shape is not logged.
  \<^verbatim>\<open>bs, n, dim = x.shape\<close> raises ValueError unless the shape has three entries.
\<close>

definition unpack3 :: "int list \<Rightarrow> error + (int \<times> int \<times> int)" where
  "unpack3 s = (case s of [a, b, c] \<Rightarrow> Inr (a, b, c)
                | _ \<Rightarrow> Inl (ValueError ''wrong number of values to unpack''))"

text \<open>\<^verbatim>\<open>_get_pos_embed\<close>, lines 82-87.\<close>

definition get_pos_embed ::
  "('t, 'd, 'b, 'h) ops \<Rightarrow> int \<times> int \<Rightarrow> 't \<Rightarrow> int \<Rightarrow> int \<Rightarrow> (('t, 'b) event, 't) comp" where
  "get_pos_embed ops psize pe H W =
     bind (call (Op OpReshape) (op_reshape ops pe [1, fst psize div 16, snd psize div 16, -1])) (\<lambda>pe.
     bind (call (Op OpPermute) (op_permute ops pe [0, 3, 1, 2])) (\<lambda>pe.
     bind (call (Op (OpInterpolate Bicubic)) (op_interpolate ops pe (Size H W) Bicubic False)) (\<lambda>pe.
     bind (call (Op OpReshape) (op_reshape ops pe [1, -1, H * W])) (\<lambda>pe.
     bind (call (Op OpPermute) (op_permute ops pe [0, 2, 1])) (\<lambda>pe.
     ret pe)))))"

text \<open>\<^verbatim>\<open>_add_level_embed\<close>, lines 93-97.\<close>

definition add_level_embed ::
  "('t, 'd, 'b, 'h) ops \<Rightarrow> 't \<Rightarrow> 't \<Rightarrow> 't \<Rightarrow> 't \<Rightarrow> (('t, 'b) event, 't \<times> 't \<times> 't) comp" where
  "add_level_embed ops lvl c2 c3 c4 =
     bind (call (Op OpGetItem) (op_getitem ops lvl 0)) (\<lambda>e0.
     bind (call (Op OpAdd) (op_add ops c2 e0)) (\<lambda>c2.
     bind (call (Op OpGetItem) (op_getitem ops lvl 1)) (\<lambda>e1.
     bind (call (Op OpAdd) (op_add ops c3 e1)) (\<lambda>c3.
     bind (call (Op OpGetItem) (op_getitem ops lvl 2)) (\<lambda>e2.
     bind (call (Op OpAdd) (op_add ops c4 e2)) (\<lambda>c4.
     ret (c2, c3, c4)))))))"

text \<open>"SPM forward", lines 104-106.\<close>

definition spm_forward ::
  "('t, 'd, 'b, 'h) ops \<Rightarrow> ('t, 'b, 'h) evovit_adapter \<Rightarrow> 't \<Rightarrow>
   (('t, 'b) event, 't \<times> 't \<times> 't \<times> 't \<times> 't) comp" where
  "spm_forward ops m x =
     bind (call (Op OpSpm) (op_spm ops (spm m) x)) (\<lambda>(c1, c2, c3, c4).
     bind (add_level_embed ops (level_embed m) c2 c3 c4) (\<lambda>(c2, c3, c4).
     bind (call (Op OpCat) (op_cat ops [c2, c3, c4] 1)) (\<lambda>c.
     ret (c1, c2, c3, c4, c))))"

text \<open>"Patch Embedding forward", lines 109-114.\<close>

definition patch_embedding_forward ::
  "('t, 'd, 'b, 'h) ops \<Rightarrow> ('t, 'b, 'h) evovit_adapter \<Rightarrow> 't \<Rightarrow>
   (('t, 'b) event, 't \<times> int \<times> int \<times> int \<times> int \<times> 't) comp" where
  "patch_embedding_forward ops m x =
     bind (call (Op OpPatchEmbed) (op_patch_embed ops x)) (\<lambda>(x, H, W).
     bind (lift (unpack3 (op_shape ops x))) (\<lambda>(bs, n, dim).
     bind (call (Op OpExpand) (op_expand ops (cls_token m) [bs, -1, -1])) (\<lambda>cls.
     bind (call (Op OpSlice) (op_slice ops (pos_embed m) 2 None (Some 1))) (\<lambda>pe0.
     bind (call (Op OpAdd) (op_add ops cls pe0)) (\<lambda>cls.
     bind (call (Op OpPosDrop) (op_pos_drop ops cls)) (\<lambda>cls.
     bind (call (Op OpSlice) (op_slice ops (pos_embed m) 2 (Some 1) None)) (\<lambda>pe1.
     bind (get_pos_embed ops (pretrain_size m) pe1 H W) (\<lambda>pe.
     bind (call (Op OpAdd) (op_add ops x pe)) (\<lambda>x.
     bind (call (Op OpPosDrop) (op_pos_drop ops x)) (\<lambda>x.
     ret (x, H, W, bs, dim, cls)))))))))))"

text \<open>
  The call of a stage, lines 121-124: the layer is given the state, \<^verbatim>\<open>indexes\<close>, the
  five per-block lists sliced from \<^verbatim>\<open>indexes[0]\<close> to \<^verbatim>\<open>indexes[-1] + 1\<close>, and the
  rest. \<open>lo\<close> and \<open>hi\<close> are \<^verbatim>\<open>indexes[0]\<close> and \<^verbatim>\<open>indexes[-1]\<close>.
\<close>

definition stage_call ::
  "('t, 'd, 'b, 'h) ops \<Rightarrow> ('t, 'b, 'h) evovit_adapter \<Rightarrow> 'd \<Rightarrow> 'd \<Rightarrow> int \<Rightarrow> int \<Rightarrow>
   'h interaction_cfg \<Rightarrow> int list \<Rightarrow> int \<Rightarrow> int \<Rightarrow> 't \<Rightarrow> 't \<Rightarrow> 't \<Rightarrow> 't attn \<Rightarrow>
   error + ('t \<times> 't \<times> 't \<times> 't attn)" where
  "stage_call ops m d1 d2 H W layer indexes lo hi cls_tok x c cls_attn =
     op_layer ops layer
       \<lparr> sa_cls_token = cls_tok, sa_x = x, sa_c = c, sa_indexes = indexes,
         sa_blocks = py_slice (blocks m) (Some lo) (Some (hi + 1)),
         sa_norms = py_slice (norms m) (Some lo) (Some (hi + 1)),
         sa_vs = py_slice (vs m) (Some lo) (Some (hi + 1)),
         sa_qks = py_slice (qks m) (Some lo) (Some (hi + 1)),
         sa_projs = py_slice (projs m) (Some lo) (Some (hi + 1)),
         sa_deform_inputs1 = d1, sa_deform_inputs2 = d2, sa_H = H, sa_W = W,
         sa_prune_ratio = prune_ratio m, sa_tradeoff = tradeoff m,
         sa_cls_attn = cls_attn \<rparr>"

text \<open>
  "Interaction", lines 119-124: the loop over \<^verbatim>\<open>enumerate(self.interactions)\<close>. The state
  that goes from one stage to the next is \<^verbatim>\<open>(cls_token, x, c, cls_attn)\<close>.
\<close>

fun interaction ::
  "('t, 'd, 'b, 'h) ops \<Rightarrow> ('t, 'b, 'h) evovit_adapter \<Rightarrow> 'd \<Rightarrow> 'd \<Rightarrow> int \<Rightarrow> int \<Rightarrow>
   (nat \<times> 'h interaction_cfg) list \<Rightarrow> 't \<times> 't \<times> 't \<times> 't attn \<Rightarrow>
   (('t, 'b) event, 't \<times> 't \<times> 't \<times> 't attn) comp" where
  "interaction ops m d1 d2 H W [] st = ret st"
| "interaction ops m d1 d2 H W ((i, layer) # rest) (cls_tok, x, c, cls_attn) =
     bind (lift (py_getitem (interaction_indexes m) (int i))) (\<lambda>indexes.
     bind (lift (py_getitem indexes 0)) (\<lambda>lo.
     bind (lift (py_getitem indexes (- 1))) (\<lambda>hi.
     bind (call (StageCall i indexes (py_slice (blocks m) (Some lo) (Some (hi + 1))) cls_attn)
             (stage_call ops m d1 d2 H W layer indexes lo hi cls_tok x c cls_attn))
       (\<lambda>(cls_tok, x, c, cls_attn).
     bind (call (StageRet cls_attn) (Inr ())) (\<lambda>_.
     interaction ops m d1 d2 H W rest (cls_tok, x, c, cls_attn))))))"

text \<open>
  "Split", lines 127-129. Each bound is read when its line runs: line 128 reads the
  length of the \<^verbatim>\<open>c2\<close> that line 127 has just assigned, line 129 those of the new
  \<^verbatim>\<open>c2\<close> and \<^verbatim>\<open>c3\<close>. The two tensor operations it uses are parameters.
\<close>

definition split_levels ::
  "('t \<Rightarrow> int \<Rightarrow> error + int) \<Rightarrow> ('t \<Rightarrow> nat \<Rightarrow> int option \<Rightarrow> int option \<Rightarrow> error + 't) \<Rightarrow>
   't \<Rightarrow> 't \<Rightarrow> 't \<Rightarrow> 't \<Rightarrow> (('t, 'b) event, 't \<times> 't \<times> 't) comp" where
  "split_levels sz sl c c2 c3 c4 =
     bind (lift (sz c2 1)) (\<lambda>n2.
     bind (call (Op OpSlice) (sl c 3 (Some 0) (Some n2))) (\<lambda>c2.
     bind (lift (sz c2 1)) (\<lambda>a.
     bind (lift (sz c2 1)) (\<lambda>a'.
     bind (lift (sz c3 1)) (\<lambda>n3.
     bind (call (Op OpSlice) (sl c 3 (Some a) (Some (a' + n3)))) (\<lambda>c3.
     bind (lift (sz c2 1)) (\<lambda>b.
     bind (lift (sz c3 1)) (\<lambda>b'.
     bind (call (Op OpSlice) (sl c 3 (Some (b + b')) None)) (\<lambda>c4.
     ret (c2, c3, c4))))))))))"

text \<open>"Reshape", lines 131-134.\<close>

definition to_spatial ::
  "('t, 'd, 'b, 'h) ops \<Rightarrow> 't \<Rightarrow> int list \<Rightarrow> (('t, 'b) event, 't) comp" where
  "to_spatial ops t shp =
     bind (call (Op OpTranspose) (op_transpose ops t 1 2)) (\<lambda>t.
     bind (call (Op OpView) (op_view ops t shp)) (\<lambda>t.
     bind (call (Op OpContiguous) (Inr (op_contiguous ops t))) (\<lambda>t.
     ret t)))"

definition reshape_levels ::
  "('t, 'd, 'b, 'h) ops \<Rightarrow> conv_transpose_cfg \<Rightarrow> int \<Rightarrow> int \<Rightarrow> int \<Rightarrow> int \<Rightarrow>
   't \<Rightarrow> 't \<Rightarrow> 't \<Rightarrow> 't \<Rightarrow> (('t, 'b) event, 't \<times> 't \<times> 't \<times> 't) comp" where
  "reshape_levels ops up_m bs dim H W c1 c2 c3 c4 =
     bind (to_spatial ops c2 [bs, dim, H * 2, W * 2]) (\<lambda>c2.
     bind (to_spatial ops c3 [bs, dim, H, W]) (\<lambda>c3.
     bind (to_spatial ops c4 [bs, dim, H div 2, W div 2]) (\<lambda>c4.
     bind (call (Op OpUp) (op_up ops up_m c2)) (\<lambda>u.
     bind (call (Op OpAdd) (op_add ops u c1)) (\<lambda>c1.
     ret (c1, c2, c3, c4))))))"

text \<open>The body of \<^verbatim>\<open>if self.add_vit_feature\<close>, lines 137-141.\<close>

definition vit_feature ::
  "('t, 'd, 'b, 'h) ops \<Rightarrow> int \<Rightarrow> int \<Rightarrow> int \<Rightarrow> int \<Rightarrow> 't \<Rightarrow>
   't \<Rightarrow> 't \<Rightarrow> 't \<Rightarrow> 't \<Rightarrow> (('t, 'b) event, 't \<times> 't \<times> 't \<times> 't) comp" where
  "vit_feature ops bs dim H W x c1 c2 c3 c4 =
     bind (to_spatial ops x [bs, dim, H, W]) (\<lambda>x3.
     bind (call (Op (OpInterpolate Bilinear)) (op_interpolate ops x3 (ScaleFactor 4 1) Bilinear False)) (\<lambda>x1.
     bind (call (Op (OpInterpolate Bilinear)) (op_interpolate ops x3 (ScaleFactor 2 1) Bilinear False)) (\<lambda>x2.
     bind (call (Op (OpInterpolate Bilinear)) (op_interpolate ops x3 (ScaleFactor 1 2) Bilinear False)) (\<lambda>x4.
     bind (call (Op OpAdd) (op_add ops c1 x1)) (\<lambda>c1.
     bind (call (Op OpAdd) (op_add ops c2 x2)) (\<lambda>c2.
     bind (call (Op OpAdd) (op_add ops c3 x3)) (\<lambda>c3.
     bind (call (Op OpAdd) (op_add ops c4 x4)) (\<lambda>c4.
     ret (c1, c2, c3, c4)))))))))"

text \<open>"Final Norm", lines 144-148.\<close>

definition final_norm ::
  "('t, 'd, 'b, 'h) ops \<Rightarrow> ('t, 'b, 'h) evovit_adapter \<Rightarrow> 't \<times> 't \<times> 't \<times> 't \<Rightarrow>
   (('t, 'b) event, 't list) comp" where
  "final_norm ops m = (\<lambda>(c1, c2, c3, c4).
     bind (call (Op (OpNorm 1)) (op_norm ops 1 (norm1 m) c1)) (\<lambda>f1.
     bind (call (Op (OpNorm 2)) (op_norm ops 2 (norm2 m) c2)) (\<lambda>f2.
     bind (call (Op (OpNorm 3)) (op_norm ops 3 (norm3 m) c3)) (\<lambda>f3.
     bind (call (Op (OpNorm 4)) (op_norm ops 4 (norm4 m) c4)) (\<lambda>f4.
     ret [f1, f2, f3, f4])))))"

text \<open>
  Lines 101-134 of \<^verbatim>\<open>forward\<close>: everything between the assertion and the test of
  \<^verbatim>\<open>add_vit_feature\<close>. It returns the token sequence, its sizes and the four levels
  derived from the convolutional branch.
\<close>

definition conv_levels ::
  "('t, 'd, 'b, 'h) ops \<Rightarrow> ('t, 'b, 'h) evovit_adapter \<Rightarrow> 't \<Rightarrow>
   (('t, 'b) event, 't \<times> int \<times> int \<times> int \<times> int \<times> 't \<times> 't \<times> 't \<times> 't) comp" where
  "conv_levels ops m x =
     bind (call (Op OpDeformInputs) (op_deform_inputs ops x)) (\<lambda>(d1, d2).
     bind (spm_forward ops m x) (\<lambda>(c1, c2, c3, c4, c).
     bind (patch_embedding_forward ops m x) (\<lambda>(x, H, W, bs, dim, cls_token).
     bind (interaction ops m d1 d2 H W (py_enumerate (interactions m))
             (cls_token, x, c, AttnInt 0)) (\<lambda>(cls_token, x, c, cls_attn).
     bind (split_levels (op_size ops) (op_slice ops) c c2 c3 c4) (\<lambda>(c2, c3, c4).
     bind (reshape_levels ops (up m) bs dim H W c1 c2 c3 c4) (\<lambda>(c1, c2, c3, c4).
     ret (x, bs, dim, H, W, c1, c2, c3, c4)))))))"

text \<open>\<^verbatim>\<open>forward\<close>, lines 99-148.\<close>

definition forward ::
  "('t, 'd, 'b, 'h) ops \<Rightarrow> ('t, 'b, 'h) evovit_adapter \<Rightarrow> 't \<Rightarrow> (('t, 'b) event, 't list) comp" where
  "forward ops m x =
     bind (py_assert (stage_wise_prune m = False)
             ''Stage-wise prune not implemented in InteractionBlockForEvo'') (\<lambda>_.
     bind (conv_levels ops m x) (\<lambda>(x, bs, dim, H, W, c1, c2, c3, c4).
     bind (if add_vit_feature m then vit_feature ops bs dim H W x c1 c2 c3 c4
           else ret (c1, c2, c3, c4))
       (final_norm ops m)))"

section \<open>Shapes: what the torch operations do to sizes\<close>

text \<open>
  A tensor seen as its shape only, a list of sizes. The functions below give the shape
  of the result of each torch primitive, or the error it raises on shapes it does not
  accept, as the torch documentation states them. Values are not modelled here.
\<close>

type_synonym shape = "int list"

definition numel :: "shape \<Rightarrow> int" where
  "numel s = prod_list s"

text \<open>A dimension argument: negative counts from the end.\<close>

definition norm_dim :: "nat \<Rightarrow> int \<Rightarrow> nat option" where
  "norm_dim r d =
     (let j = (if d < 0 then d + int r else d)
      in if 0 \<le> j \<and> j < int r then Some (nat j) else None)"

definition sh_size :: "shape \<Rightarrow> int \<Rightarrow> error + int" where
  "sh_size s d = (case norm_dim (length s) d of
                    None \<Rightarrow> Inl (IndexError ''Dimension out of range'')
                  | Some j \<Rightarrow> Inr (s ! j))"

text \<open>
  \<^verbatim>\<open>reshape\<close> to a target that may hold one \<open>-1\<close>, which is inferred. The number of
  elements must stay the same.
\<close>

definition sh_reshape :: "shape \<Rightarrow> int list \<Rightarrow> error + shape" where
  "sh_reshape s tgt =
     (if list_ex (\<lambda>d. d < - 1) tgt then Inl (RuntimeError ''invalid shape dimension'')
      else (case filter (\<lambda>d. d = - 1) tgt of
          [] \<Rightarrow> if prod_list tgt = numel s then Inr tgt
                else Inl (RuntimeError ''shape is invalid for input size'')
        | [u] \<Rightarrow>
            (let p = prod_list (filter (\<lambda>d. d \<noteq> - 1) tgt)
             in if p = 0 then Inl (RuntimeError ''cannot infer the unspecified dimension'')
                else if numel s mod p = 0
                  then Inr (map (\<lambda>d. if d = - 1 then numel s div p else d) tgt)
                else Inl (RuntimeError ''shape is invalid for input size''))
        | u # v # ws \<Rightarrow> Inl (RuntimeError ''only one dimension can be inferred'')))"

text \<open>
  \<^verbatim>\<open>view\<close> asks in addition that the strides allow the new shape without a copy. The only
  views of the forward pass split the last axis of a transposed contiguous tensor, which
  the strides always allow; so on shapes \<^verbatim>\<open>view\<close> is \<^verbatim>\<open>reshape\<close>.
\<close>

definition sh_view :: "shape \<Rightarrow> int list \<Rightarrow> error + shape" where
  "sh_view s tgt = sh_reshape s tgt"

definition sh_permute :: "shape \<Rightarrow> int list \<Rightarrow> error + shape" where
  "sh_permute s dims =
     (let js = map (norm_dim (length s)) dims
      in if length dims = length s \<and> list_all (\<lambda>j. j \<noteq> None) js \<and> distinct js
         then Inr (map (\<lambda>j. s ! the j) js)
         else Inl (RuntimeError ''permute: dims do not match the tensor''))"

definition sh_transpose :: "shape \<Rightarrow> int \<Rightarrow> int \<Rightarrow> error + shape" where
  "sh_transpose s d0 d1 =
     (case (norm_dim (length s) d0, norm_dim (length s) d1) of
        (Some i, Some j) \<Rightarrow> Inr (s[i := s ! j, j := s ! i])
      | _ \<Rightarrow> Inl (IndexError ''Dimension out of range''))"

text \<open>Broadcasting of two shapes, from the last axis backwards.\<close>

fun broadcast_rev :: "int list \<Rightarrow> int list \<Rightarrow> int list option" where
  "broadcast_rev [] ys = Some ys"
| "broadcast_rev (x # xs) [] = Some (x # xs)"
| "broadcast_rev (x # xs) (y # ys) =
     (if x = y \<or> x = 1 \<or> y = 1
      then map_option (\<lambda>r. (if x = 1 then y else x) # r) (broadcast_rev xs ys)
      else None)"

definition sh_add :: "shape \<Rightarrow> shape \<Rightarrow> error + shape" where
  "sh_add a b = (case broadcast_rev (rev a) (rev b) of
                   None \<Rightarrow> Inl (RuntimeError ''sizes of the tensors must match'')
                 | Some r \<Rightarrow> Inr (rev r))"

text \<open>\<^verbatim>\<open>t[i]\<close>: the first axis is indexed away.\<close>

definition sh_getitem :: "shape \<Rightarrow> int \<Rightarrow> error + shape" where
  "sh_getitem s i =
     (case s of
        [] \<Rightarrow> Inl (IndexError ''invalid index of a 0-dim tensor'')
      | n # rest \<Rightarrow> if - n \<le> i \<and> i < n then Inr rest
                    else Inl (IndexError ''index out of range''))"

text \<open>\<^verbatim>\<open>torch.cat(ts, dim)\<close>: the shapes agree except along \<open>dim\<close>, where the sizes add up.\<close>

definition sh_cat :: "shape list \<Rightarrow> int \<Rightarrow> error + shape" where
  "sh_cat ts d =
     (case ts of
        [] \<Rightarrow> Inl (RuntimeError ''expected a non-empty list of tensors'')
      | t # rest \<Rightarrow>
          (case norm_dim (length t) d of
             None \<Rightarrow> Inl (IndexError ''Dimension out of range'')
           | Some j \<Rightarrow>
               if list_all (\<lambda>u. length u = length t \<and> u[j := 0] = t[j := 0]) rest
               then Inr (t[j := sum_list (map (\<lambda>u. u ! j) ts)])
               else Inl (RuntimeError ''sizes of tensors must match except in the cat dimension'')))"

text \<open>
  \<^verbatim>\<open>t.expand(sizes)\<close>, on reversed lists: \<open>-1\<close> keeps a size, a size of 1 grows to the one
  asked for, new axes may be added in front.
\<close>

fun expand_rev :: "int list \<Rightarrow> int list \<Rightarrow> int list option" where
  "expand_rev [] [] = Some []"
| "expand_rev [] (t # ts) = (if 0 \<le> t then map_option (\<lambda>r. t # r) (expand_rev [] ts) else None)"
| "expand_rev (e # es) [] = None"
| "expand_rev (e # es) (t # ts) =
     (if t = - 1 \<or> t = e then map_option (\<lambda>r. e # r) (expand_rev es ts)
      else if e = 1 \<and> 0 \<le> t then map_option (\<lambda>r. t # r) (expand_rev es ts)
      else None)"

definition sh_expand :: "shape \<Rightarrow> int list \<Rightarrow> error + shape" where
  "sh_expand s tgt = (case expand_rev (rev s) (rev tgt) of
                        None \<Rightarrow> Inl (RuntimeError ''the expanded size must match the existing size'')
                      | Some r \<Rightarrow> Inr (rev r))"

text \<open>\<^verbatim>\<open>t[:, lo:hi]\<close> written with \<open>k\<close> indices: the tensor needs \<open>k\<close> axes.\<close>

definition sh_slice :: "shape \<Rightarrow> nat \<Rightarrow> int option \<Rightarrow> int option \<Rightarrow> error + shape" where
  "sh_slice s k lo hi =
     (if length s < k \<or> length s < 2 then Inl (IndexError ''too many indices for tensor'')
      else Inr (s[1 := int (py_slice_len (nat (s ! 1)) lo hi)]))"

text \<open>
  \<^verbatim>\<open>F.interpolate\<close> with a size of two entries or a scale factor, in the bicubic and
  bilinear modes: a 4-D input with non-empty channels and spatial axes, and an output
  whose spatial sizes are positive; a scale factor \<open>p/q\<close> gives \<open>floor(size * p / q)\<close>.
\<close>

definition sh_interpolate :: "shape \<Rightarrow> interp_arg \<Rightarrow> interp_mode \<Rightarrow> bool \<Rightarrow> error + shape" where
  "sh_interpolate s arg mode align =
     (case s of
        [n, c, h, w] \<Rightarrow>
          (let (H, W) = (case arg of Size H W \<Rightarrow> (H, W)
                         | ScaleFactor p q \<Rightarrow> (h * p div q, w * p div q))
           in if 0 < c \<and> 0 < h \<and> 0 < w \<and> 0 < H \<and> 0 < W then Inr [n, c, H, W]
              else Inl (RuntimeError ''input and output sizes should be greater than 0''))
      | _ \<Rightarrow> Inl (ValueError ''input and output must have the same number of spatial dimensions''))"

text \<open>
  \<^verbatim>\<open>ConvTranspose2d\<close> with no padding, dilation 1 and no output padding, on a batched
  input: an axis of size \<open>h\<close> becomes \<open>(h - 1) * stride + (kernel_size - 1) + 1\<close>.
\<close>

definition sh_conv_transpose :: "conv_transpose_cfg \<Rightarrow> shape \<Rightarrow> error + shape" where
  "sh_conv_transpose cfg s =
     (case s of
        [n, c, h, w] \<Rightarrow>
          if c = ct_in_channels cfg \<and> 0 < h \<and> 0 < w
          then Inr [n, ct_out_channels cfg,
                    (h - 1) * ct_stride cfg + (ct_kernel_size cfg - 1) + 1,
                    (w - 1) * ct_stride cfg + (ct_kernel_size cfg - 1) + 1]
          else Inl (RuntimeError ''input does not match the weight of the convolution'')
      | _ \<Rightarrow> Inl (RuntimeError ''expected a batched 4D input''))"

text \<open>\<^verbatim>\<open>SyncBatchNorm\<close> keeps the shape; axis 1 holds the \<^verbatim>\<open>num_features\<close> channels.\<close>

definition sh_batch_norm :: "nat \<Rightarrow> sync_bn_cfg \<Rightarrow> shape \<Rightarrow> error + shape" where
  "sh_batch_norm k cfg s =
     (if length s < 2 then Inl (ValueError ''expected at least 2D input'')
      else if s ! 1 = bn_num_features cfg then Inr s
      else Inl (RuntimeError ''running_mean should contain as many elements as channels''))"

text \<open>
  Modelled from the spec: the shapes the collaborators absent from the sources return
  (sections 3, 4.3 and 6 of the specification). The spatial prior branch gives \<open>c1\<close> at
  stride 4 as a spatial tensor and \<open>c2, c3, c4\<close> at strides 8, 16, 32 as token sequences;
  patch embedding gives one token per 16 by 16 patch and the grid sizes; a stage returns
  its three tensors with their shapes unchanged and an accumulator; \<^verbatim>\<open>pos_drop\<close> keeps
  the shape. They serve to run the forward pass on concrete inputs.
\<close>

definition sh_spm :: "spm_cfg \<Rightarrow> shape \<Rightarrow> error + (shape \<times> shape \<times> shape \<times> shape)" where
  "sh_spm cfg s =
     (case s of
        [n, ch, h, w] \<Rightarrow>
          (let D = spm_embed_dim cfg
           in Inr ([n, D, h div 4, w div 4], [n, (h div 8) * (w div 8), D],
                   [n, (h div 16) * (w div 16), D], [n, (h div 32) * (w div 32), D]))
      | _ \<Rightarrow> Inl (RuntimeError ''expected a batched 4D input''))"

definition sh_patch_embed :: "int \<Rightarrow> shape \<Rightarrow> error + (shape \<times> int \<times> int)" where
  "sh_patch_embed D s =
     (case s of
        [n, ch, h, w] \<Rightarrow> Inr ([n, (h div 16) * (w div 16), D], h div 16, w div 16)
      | _ \<Rightarrow> Inl (RuntimeError ''expected a batched 4D input''))"

definition sh_layer ::
  "'h interaction_cfg \<Rightarrow> (shape, unit, 'b, 'h) stage_args \<Rightarrow>
   error + (shape \<times> shape \<times> shape \<times> shape attn)" where
  "sh_layer cfg a = Inr (sa_cls_token a, sa_x a, sa_c a, AttnTensor (take 2 (sa_x a)))"

text \<open>The operations on shapes, for a backbone of embedding dimension \<open>D\<close>.\<close>

definition shape_ops :: "int \<Rightarrow> (shape, unit, 'b, 'h) ops" where
  "shape_ops D =
     \<lparr> op_deform_inputs = (\<lambda>x. Inr ((), ())),
       op_spm = sh_spm,
       op_patch_embed = sh_patch_embed D,
       op_pos_drop = Inr,
       op_layer = sh_layer,
       op_up = sh_conv_transpose,
       op_norm = sh_batch_norm,
       op_add = sh_add,
       op_getitem = sh_getitem,
       op_cat = sh_cat,
       op_shape = (\<lambda>s. s),
       op_size = sh_size,
       op_expand = sh_expand,
       op_slice = sh_slice,
       op_reshape = sh_reshape,
       op_permute = sh_permute,
       op_transpose = sh_transpose,
       op_view = sh_view,
       op_contiguous = (\<lambda>s. s),
       op_interpolate = sh_interpolate \<rparr>"

section \<open>A backbone to run\<close>

text \<open>
  A base transformer of twelve blocks (named by their numbers) with embedding dimension
  768, pretrained at 224 by 224, and the adapter built on it from the default arguments
  with four stages of three blocks each. Tensors are shapes.
\<close>

definition vit_base :: "(shape, nat, unit) evo_vit" where
  "vit_base =
     \<lparr> blocks = [0 ..< 12], norms = [0 ..< 12], vs = [0 ..< 12], qks = [0 ..< 12],
       projs = [0 ..< 12], embed_dim = 768, drop_path_rate = (), norm_layer = (),
       cls_token = [1, 1, 768], pos_embed = [1, 197, 768], prune_ratio = (), tradeoff = (),
       norm = Some 0, head = Some 0, norm_cls = Some 0, head_cls = Some 0,
       stage_wise_prune = False, num_classes = 1000 \<rparr>"

definition vit_base_init ::
  "unit pyval list \<Rightarrow> int \<Rightarrow> (string \<rightharpoonup> unit pyval) \<Rightarrow> error + (shape, nat, unit) evo_vit" where
  "vit_base_init args nheads kwargs = Inr vit_base"

definition level_embed_init :: "int \<Rightarrow> shape" where
  "level_embed_init D = [3, D]"

definition default_args :: "unit ctor_args" where
  "default_args =
     \<lparr> arg_pretrain_size = 224, arg_num_heads = 12, arg_conv_inplane = 64, arg_n_points = 4,
       arg_deform_num_heads = 6, arg_init_values = (), arg_interaction_indexes = None,
       arg_with_cffn = True, arg_cffn_ratio = (), arg_deform_ratio = (),
       arg_add_vit_feature = True, arg_use_extra_extractor = True \<rparr>"

definition adapter_args :: "unit ctor_args" where
  "adapter_args =
     default_args\<lparr> arg_interaction_indexes := Some [[0, 2], [3, 5], [6, 8], [9, 11]] \<rparr>"

definition adapter_kwargs :: "string \<rightharpoonup> unit pyval" where
  "adapter_kwargs =
     [''window_attn'' \<mapsto> PyBool False, ''window_size'' \<mapsto> PyInt 14,
      ''layer_scale'' \<mapsto> PyBool False, ''pretrained'' \<mapsto> PyNone]"

text \<open>The module that this construction returns (lemma \<open>adapter_built\<close>).\<close>

definition adapter :: "(shape, nat, unit) evovit_adapter" where
  "adapter =
     evo_vit.extend
       (vit_base\<lparr> norm := None, head := None, norm_cls := None, head_cls := None,
                  stage_wise_prune := False, num_classes := 80 \<rparr>)
       (evovit_adapter.fields 12 (224, 224) [[0, 2], [3, 5], [6, 8], [9, 11]] True [3, 768]
          \<lparr> spm_inplanes = 64, spm_embed_dim = 768 \<rparr>
          (map (mk_interaction vit_base adapter_args 4) [0, 1, 2, 3])
          \<lparr> ct_in_channels = 768, ct_out_channels = 768, ct_kernel_size = 2, ct_stride = 2 \<rparr>
          \<lparr> bn_num_features = 768 \<rparr> \<lparr> bn_num_features = 768 \<rparr>
          \<lparr> bn_num_features = 768 \<rparr> \<lparr> bn_num_features = 768 \<rparr>)"

text \<open>Construction followed by a forward pass on what was built.\<close>

definition build_and_forward ::
  "('h pyval list \<Rightarrow> int \<Rightarrow> (string \<rightharpoonup> 'h pyval) \<Rightarrow> error + ('t, 'b, 'h) evo_vit) \<Rightarrow> (int \<Rightarrow> 't) \<Rightarrow>
   'h ctor_args \<Rightarrow> 'h pyval list \<Rightarrow> (string \<rightharpoonup> 'h pyval) \<Rightarrow> ('t, 'd, 'b, 'h) ops \<Rightarrow> 't \<Rightarrow>
   error + (('t, 'b) event, 't list) comp" where
  "build_and_forward si li a args kw ops x =
     (case fst (EvoViTAdapter_init si li a args kw) of
        Inl e \<Rightarrow> Inl e
      | Inr m \<Rightarrow> Inr (forward ops m x))"

text \<open>Keyword arguments that leave \<^verbatim>\<open>pretrained\<close> out and ask for layer scale.\<close>

definition kwargs_without_pretrained :: "string \<rightharpoonup> unit pyval" where
  "kwargs_without_pretrained =
     [''window_attn'' \<mapsto> PyBool False, ''window_size'' \<mapsto> PyInt 14,
      ''layer_scale'' \<mapsto> PyBool True]"

section \<open>Reading a log\<close>

text \<open>
  The blocks a log hands to the stages, in the order of the calls. A stage executes the
  slice of blocks it is given, in order (section 4.3, step 2 of the specification; the
  stage itself is not part of the sources at hand), so this is the sequence of blocks
  the logged stages run.
\<close>

fun stage_blocks :: "('t, 'b) event \<Rightarrow> 'b list" where
  "stage_blocks (StageCall i ix bs a) = bs"
| "stage_blocks (StageRet a) = []"
| "stage_blocks (Op n) = []"

definition blocks_run :: "('t, 'b) event list \<Rightarrow> 'b list" where
  "blocks_run evs = concat (map stage_blocks evs)"

text \<open>
  The accumulator as the log threads it: starting from \<open>a\<close>, every stage must receive
  the current accumulator, and what a stage returns becomes the current one. The result
  is the accumulator at the end of the log, or \<open>None\<close> when some stage received
  anything else.
\<close>

fun attn_thread :: "'t attn \<Rightarrow> ('t, 'b) event list \<Rightarrow> 't attn option" where
  "attn_thread a [] = Some a"
| "attn_thread a (StageCall i ix bs a' # evs) = (if a' = a then attn_thread a evs else None)"
| "attn_thread a (StageRet a' # evs) = attn_thread a' evs"
| "attn_thread a (Op n # evs) = attn_thread a evs"

text \<open>The accumulator that the first stage of a log receives, if a stage is called.\<close>

fun first_stage_attn :: "('t, 'b) event list \<Rightarrow> 't attn option" where
  "first_stage_attn [] = None"
| "first_stage_attn (StageCall i ix bs a # evs) = Some a"
| "first_stage_attn (StageRet a # evs) = first_stage_attn evs"
| "first_stage_attn (Op n # evs) = first_stage_attn evs"

text \<open>A computation all of whose logged events satisfy \<open>P\<close>.\<close>

definition logs_in :: "('ev \<Rightarrow> bool) \<Rightarrow> ('ev, 'a) comp \<Rightarrow> bool" where
  "logs_in P c = list_all P (snd c)"

fun is_op :: "('t, 'b) event \<Rightarrow> bool" where
  "is_op (Op n) = True"
| "is_op (StageCall i ix bs a) = False"
| "is_op (StageRet a) = False"

section \<open>Partitions of the block list\<close>

text \<open>
  The invariant the specification asks of \<^verbatim>\<open>interaction_indexes\<close>: its entries,
  read as the ranges from \<^verbatim>\<open>indexes[0]\<close> to \<^verbatim>\<open>indexes[-1]\<close> inclusive, are non-empty
  ranges that follow one another without gap or overlap, from block \<open>s\<close> up to block
  \<open>n - 1\<close>.
\<close>

fun covers_from :: "int \<Rightarrow> int \<Rightarrow> int list list \<Rightarrow> bool" where
  "covers_from s n [] = (s = n)"
| "covers_from s n (ix # ixs) =
     (ix \<noteq> [] \<and> hd ix = s \<and> s \<le> last ix \<and> covers_from (last ix + 1) n ixs)"

definition valid_partition :: "nat \<Rightarrow> int list list \<Rightarrow> bool" where
  "valid_partition n ixs = covers_from 0 (int n) ixs"

text \<open>The number of blocks of a stage, \<^verbatim>\<open>indexes[-1] + 1 - indexes[0]\<close>.\<close>

definition stage_count :: "int list \<Rightarrow> int" where
  "stage_count ix = last ix + 1 - hd ix"

text \<open>Whether a computation returned a value rather than raised.\<close>

definition returned :: "('ev, 'a) comp \<Rightarrow> bool" where
  "returned c = (case fst c of Inl e \<Rightarrow> False | Inr v \<Rightarrow> True)"

section \<open>Laws of logged computations\<close>

lemma bind_lift_Inl [simp]: "bind (lift (Inl e)) f = (Inl e, [])"
  by (simp add: bind_def lift_def)

lemma bind_lift_Inr [simp]: "bind (lift (Inr a)) f = f a"
  by (simp add: bind_def lift_def)

lemma bind_ret [simp]: "bind (ret a) f = f a"
  by (simp add: bind_def ret_def)

lemma bind_raise [simp]: "bind (raise e) f = (Inl e, [])"
  by (simp add: bind_def raise_def)

lemma bind_call_Inl [simp]: "bind (call ev (Inl e)) f = (Inl e, [ev])"
  by (simp add: bind_def call_def)

lemma bind_call_Inr [simp]:
  "bind (call ev (Inr a)) f = (case f a of (r, evs) \<Rightarrow> (r, ev # evs))"
  by (simp add: bind_def call_def)

lemma bind_Inl [simp]: "bind (Inl e, evs) f = (Inl e, evs)"
  by (simp add: bind_def)

lemma bind_Inr [simp]: "bind (Inr a, evs) f = (case f a of (r, evs') \<Rightarrow> (r, evs @ evs'))"
  by (simp add: bind_def)

lemma case_ret [simp]: "(case ret a of (r, evs) \<Rightarrow> g r evs) = g (Inr a) []"
  by (simp add: ret_def)

lemma case_raise [simp]: "(case raise e of (r, evs) \<Rightarrow> g r evs) = g (Inl e) []"
  by (simp add: raise_def)

lemma case_lift [simp]: "(case lift r of (r', evs) \<Rightarrow> g r' evs) = g r []"
  by (simp add: lift_def)

lemma case_call [simp]: "(case call ev r of (r', evs) \<Rightarrow> g r' evs) = g r [ev]"
  by (simp add: call_def)

lemma fst_bind:
  "fst (bind m f) = (case fst m of Inl e \<Rightarrow> Inl e | Inr a \<Rightarrow> fst (f a))"
  by (cases m) (simp add: bind_def split: sum.splits prod.splits)

lemma snd_bind_call:
  "snd (bind (call ev r) f) = ev # (case r of Inl e \<Rightarrow> [] | Inr a \<Rightarrow> snd (f a))"
  by (simp add: bind_def call_def split: sum.splits prod.splits)

lemma snd_bind:
  "snd (bind m f) = (case fst m of Inl e \<Rightarrow> snd m | Inr a \<Rightarrow> snd m @ snd (f a))"
  by (cases m) (simp add: bind_def split: sum.splits prod.splits)

lemma dict_pop_None [simp]: "d k = None \<Longrightarrow> dict_pop d k = Inl (KeyError k)"
  by (simp add: dict_pop_def)

lemma dict_pop_Some [simp]: "d k = Some v \<Longrightarrow> dict_pop d k = Inr (v, d(k := None))"
  by (simp add: dict_pop_def)

section \<open>Properties of construction\<close>

text \<open>
  When lines 25-28 raise, construction ends with that error and an empty log: the base
  class's constructor has not been called and no sub-module has been built.
\<close>

lemma init_first_error_fails:
  "init_first_error kw = Some e \<Longrightarrow> EvoViTAdapter_init si li a args kw = (Inl e, [])"
  unfolding EvoViTAdapter_init_def init_first_error_def
  by (cases "kw ''window_attn''"; cases "kw ''window_size''"; cases "kw ''layer_scale''";
      cases "kw ''pretrained''")
     (auto simp: py_assert_def split: if_splits)

text \<open>When they do not raise, the base class's constructor is the first thing called.\<close>

lemma init_first_error_passes:
  "init_first_error kw = None \<Longrightarrow>
     \<exists>evs. snd (EvoViTAdapter_init si li a args kw) = BuildBase # evs"
  unfolding EvoViTAdapter_init_def init_first_error_def
  by (cases "kw ''window_attn''"; cases "kw ''window_size''"; cases "kw ''layer_scale''";
      cases "kw ''pretrained''")
     (auto simp: py_assert_def snd_bind_call split: if_splits)

text \<open>
  C6. A construction call in which \<^verbatim>\<open>layer_scale\<close> is not \<^verbatim>\<open>False\<close> or \<^verbatim>\<open>pretrained\<close> is
  not \<^verbatim>\<open>None\<close> (supplied with another value, or not supplied at all) raises; the error
  is the one of lines 25-28 and the log is empty, so it is raised before the base
  transformer, the spatial prior module or any interaction stage is built.
\<close>

theorem init_rejects_layer_scale_and_pretrained:
  assumes "kw ''layer_scale'' \<noteq> Some (PyBool False) \<or> kw ''pretrained'' \<noteq> Some PyNone"
  shows "\<exists>e. init_first_error kw = Some e \<and>
              EvoViTAdapter_init si li a args kw = (Inl e, [])"
proof -
  from assms have "init_first_error kw \<noteq> None"
    by (auto simp: init_first_error_def)
  then obtain e where "init_first_error kw = Some e"
    by blast
  then show ?thesis
    using init_first_error_fails by blast
qed

theorem init_rejects_layer_scale_and_pretrained_witness:
  "EvoViTAdapter_init vit_base_init level_embed_init adapter_args []
     (adapter_kwargs(''layer_scale'' \<mapsto> PyBool True))
   = (Inl (AssertionError ''Pytorch Better Transformer does not support layer scale''), [])"
  using init_rejects_layer_scale_and_pretrained
    [of "adapter_kwargs(''layer_scale'' \<mapsto> PyBool True)"
        vit_base_init level_embed_init adapter_args "[]"]
  by (simp add: adapter_kwargs_def init_first_error_def)

text \<open>The example construction succeeds and builds the module \<open>adapter\<close>.\<close>

lemma adapter_built:
  "EvoViTAdapter_init vit_base_init level_embed_init adapter_args [] adapter_kwargs =
     (Inr adapter,
      [BuildBase, BuildLevelEmbed, BuildSpm, BuildInteraction 0, BuildInteraction 1,
       BuildInteraction 2, BuildInteraction 3, BuildUp, BuildNorm 1, BuildNorm 2, BuildNorm 3,
       BuildNorm 4, InitWeights])"
  by code_simp

text \<open>
  C8. Two construction calls that differ only in the values supplied for \<^verbatim>\<open>window_attn\<close>
  and \<^verbatim>\<open>window_size\<close> have the same outcome: the same error or the same module, with
  the same build log, and hence the same result and log of every forward pass. (The
  random numbers of the weight initialisers are outside the model.)
\<close>

theorem legacy_flags_ignored:
  "EvoViTAdapter_init si li a args (kw(''window_attn'' \<mapsto> v1, ''window_size'' \<mapsto> v2))
     = EvoViTAdapter_init si li a args (kw(''window_attn'' \<mapsto> w1, ''window_size'' \<mapsto> w2))
   \<and> build_and_forward si li a args (kw(''window_attn'' \<mapsto> v1, ''window_size'' \<mapsto> v2)) ops x
     = build_and_forward si li a args (kw(''window_attn'' \<mapsto> w1, ''window_size'' \<mapsto> w2)) ops x"
proof -
  have "EvoViTAdapter_init si li a args (kw(''window_attn'' \<mapsto> v1, ''window_size'' \<mapsto> v2))
     = EvoViTAdapter_init si li a args (kw(''window_attn'' \<mapsto> w1, ''window_size'' \<mapsto> w2))"
    unfolding EvoViTAdapter_init_def by (simp add: fun_upd_twist)
  then show ?thesis
    by (simp add: build_and_forward_def)
qed

text \<open>
  C9, as stated: a construction call that omits any of the four keys fails with a
  key-lookup error. It does not hold: with \<^verbatim>\<open>pretrained\<close> omitted and
  \<^verbatim>\<open>layer_scale=True\<close>, the assertion of line 27 fails before line 28 looks
  \<^verbatim>\<open>pretrained\<close> up, and the error is an AssertionError.
\<close>

theorem missing_key_not_key_error:
  "kwargs_without_pretrained ''pretrained'' = None \<and>
   EvoViTAdapter_init vit_base_init level_embed_init adapter_args [] kwargs_without_pretrained
     = (Inl (AssertionError ''Pytorch Better Transformer does not support layer scale''), [])"
  by (simp add: kwargs_without_pretrained_def init_first_error_fails init_first_error_def)

text \<open>
  C9, amended. A construction call that omits any of the four keys fails before anything
  is built (the log is empty). The error is a KeyError for the first omitted key in the
  order \<^verbatim>\<open>window_attn\<close>, \<^verbatim>\<open>window_size\<close>, \<^verbatim>\<open>layer_scale\<close>, \<^verbatim>\<open>pretrained\<close>, except when
  only \<^verbatim>\<open>pretrained\<close> is omitted and \<^verbatim>\<open>layer_scale\<close> is not \<^verbatim>\<open>False\<close>: then it is the
  AssertionError of line 27.
\<close>

theorem missing_key_fails:
  assumes "kw ''window_attn'' = None \<or> kw ''window_size'' = None \<or>
           kw ''layer_scale'' = None \<or> kw ''pretrained'' = None"
  shows "EvoViTAdapter_init si li a args kw =
           (Inl (if kw ''window_attn'' = None then KeyError ''window_attn''
                 else if kw ''window_size'' = None then KeyError ''window_size''
                 else if kw ''layer_scale'' = None then KeyError ''layer_scale''
                 else if kw ''layer_scale'' = Some (PyBool False) then KeyError ''pretrained''
                 else AssertionError ''Pytorch Better Transformer does not support layer scale''),
            [])"
  using assms by (intro init_first_error_fails) (auto simp: init_first_error_def)

theorem missing_key_fails_witness:
  "EvoViTAdapter_init vit_base_init level_embed_init adapter_args []
     (adapter_kwargs(''window_size'' := None)) = (Inl (KeyError ''window_size''), [])"
  using missing_key_fails
    [of "adapter_kwargs(''window_size'' := None)" vit_base_init level_embed_init adapter_args "[]"]
  by (simp add: adapter_kwargs_def)

section \<open>Properties of the forward pass\<close>

text \<open>
  C5. On a backbone whose \<^verbatim>\<open>stage_wise_prune\<close> flag is true, \<^verbatim>\<open>forward\<close> raises the
  assertion error of line 100 with an empty log, whatever the operations are: no patch
  embedding, spatial-prior forward, interaction stage or other tensor operation is
  called.
\<close>

theorem forward_rejects_stage_wise_prune:
  assumes "stage_wise_prune m"
  shows "forward ops m x =
           (Inl (AssertionError ''Stage-wise prune not implemented in InteractionBlockForEvo''), [])"
  using assms by (simp add: forward_def py_assert_def)

theorem forward_rejects_stage_wise_prune_witness:
  "forward (shape_ops 768) (adapter\<lparr> stage_wise_prune := True \<rparr>) [2, 3, 320, 320] =
     (Inl (AssertionError ''Stage-wise prune not implemented in InteractionBlockForEvo''), [])"
  using forward_rejects_stage_wise_prune
    [of "adapter\<lparr> stage_wise_prune := True \<rparr>" "shape_ops 768" "[2, 3, 320, 320]"]
  by simp

section \<open>The interaction loop\<close>

lemma enumerate_from_Nil [simp]: "enumerate_from k [] = []"
  by (simp add: enumerate_from_def)

lemma enumerate_from_Cons [simp]: "enumerate_from k (x # xs) = (k, x) # enumerate_from (Suc k) xs"
proof -
  have "[k ..< k + length (x # xs)] = k # [Suc k ..< Suc k + length xs]"
    by (subst upt_rec) simp
  then show ?thesis
    by (simp add: enumerate_from_def)
qed

lemma py_getitem_nth: "k < length xs \<Longrightarrow> py_getitem xs (int k) = Inr (xs ! k)"
  by (simp add: py_getitem_def)

lemma py_getitem_hd: "xs \<noteq> [] \<Longrightarrow> py_getitem xs 0 = Inr (hd xs)"
  by (cases xs) (simp_all add: py_getitem_def)

lemma py_getitem_last: "xs \<noteq> [] \<Longrightarrow> py_getitem xs (- 1) = Inr (last xs)"
  by (cases xs rule: rev_cases) (simp_all add: py_getitem_def nth_append)

lemma py_slice_range:
  assumes "0 \<le> lo" "lo \<le> hi" "hi \<le> int (length xs)"
  shows "py_slice xs (Some lo) (Some hi) = take (nat (hi - lo)) (drop (nat lo) xs)"
  using assms by (simp add: py_slice_def slice_bound_def Let_def nat_diff_distrib)

lemma covers_from_le: "covers_from s n ixs \<Longrightarrow> s \<le> n"
proof (induction ixs arbitrary: s)
  case Nil
  then show ?case by simp
next
  case (Cons ix ixs)
  then have "s \<le> last ix" and "last ix + 1 \<le> n"
    by auto
  then show ?case by simp
qed

lemma covers_from_sum: "covers_from s n ixs \<Longrightarrow> sum_list (map stage_count ixs) = n - s"
  by (induction ixs arbitrary: s) (auto simp: stage_count_def)

lemma interaction_Cons:
  assumes "py_getitem (interaction_indexes m) (int i) = Inr ix"
      and "py_getitem ix 0 = Inr lo" and "py_getitem ix (- 1) = Inr hi"
  shows "interaction ops m d1 d2 H W ((i, l) # rest) (cls, x, c, a) =
           (case stage_call ops m d1 d2 H W l ix lo hi cls x c a of
              Inl e \<Rightarrow> (Inl e, [StageCall i ix (py_slice (blocks m) (Some lo) (Some (hi + 1))) a])
            | Inr (cls', x', c', a') \<Rightarrow>
                (fst (interaction ops m d1 d2 H W rest (cls', x', c', a')),
                 StageCall i ix (py_slice (blocks m) (Some lo) (Some (hi + 1))) a # StageRet a' #
                 snd (interaction ops m d1 d2 H W rest (cls', x', c', a'))))"
  using assms by (simp split: sum.splits prod.splits)

lemma interaction_step:
  assumes "py_getitem (interaction_indexes m) (int i) = Inr ix"
      and "py_getitem ix 0 = Inr lo" and "py_getitem ix (- 1) = Inr hi"
  shows "(\<exists>e. interaction ops m d1 d2 H W ((i, l) # rest) (cls, x, c, a) =
               (Inl e, [StageCall i ix (py_slice (blocks m) (Some lo) (Some (hi + 1))) a]))
       \<or> (\<exists>cls' x' c' a'.
            interaction ops m d1 d2 H W ((i, l) # rest) (cls, x, c, a) =
              (fst (interaction ops m d1 d2 H W rest (cls', x', c', a')),
               StageCall i ix (py_slice (blocks m) (Some lo) (Some (hi + 1))) a # StageRet a' #
               snd (interaction ops m d1 d2 H W rest (cls', x', c', a'))))"
proof (cases "stage_call ops m d1 d2 H W l ix lo hi cls x c a")
  case (Inl e)
  then show ?thesis
    unfolding interaction_Cons [OF assms] by simp
next
  case (Inr r)
  obtain cls' x' c' a' where "r = (cls', x', c', a')"
    by (rule prod_cases4)
  with Inr show ?thesis
    unfolding interaction_Cons [OF assms] by simp blast
qed

lemma blocks_run_Nil [simp]: "blocks_run [] = []"
  by (simp add: blocks_run_def)

lemma blocks_run_StageCall [simp]: "blocks_run (StageCall i ix bs a # evs) = bs @ blocks_run evs"
  by (simp add: blocks_run_def)

lemma blocks_run_StageRet [simp]: "blocks_run (StageRet a # evs) = blocks_run evs"
  by (simp add: blocks_run_def)

lemma blocks_run_Op [simp]: "blocks_run (Op n # evs) = blocks_run evs"
  by (simp add: blocks_run_def)

lemma interaction_blocks:
  assumes "covers_from s (int (length (blocks m))) (drop k (interaction_indexes m))"
      and "0 \<le> s" and "k + length ls = length (interaction_indexes m)"
  shows "prefix (blocks_run (snd (interaction ops m d1 d2 H W (enumerate_from k ls) st)))
           (drop (nat s) (blocks m))
       \<and> ((\<exists>st'. fst (interaction ops m d1 d2 H W (enumerate_from k ls) st) = Inr st') \<longrightarrow>
            blocks_run (snd (interaction ops m d1 d2 H W (enumerate_from k ls) st))
              = drop (nat s) (blocks m))"
  using assms
proof (induction ls arbitrary: k s st)
  case Nil
  then have "s = int (length (blocks m))"
    by simp
  then show ?case
    by (simp add: ret_def)
next
  case (Cons l ls)
  obtain cls x c a where st: "st = (cls, x, c, a)"
    by (rule prod_cases4)
  let ?ixs = "interaction_indexes m"
  let ?bs = "blocks m"
  let ?rest = "enumerate_from (Suc k) ls"
  from Cons.prems(3) have k: "k < length ?ixs"
    by simp
  define ix where "ix = ?ixs ! k"
  from k have dr: "drop k ?ixs = ix # drop (Suc k) ?ixs"
    by (simp add: ix_def Cons_nth_drop_Suc)
  from Cons.prems(1) have "covers_from s (int (length ?bs)) (ix # drop (Suc k) ?ixs)"
    by (simp only: dr)
  then have ix: "ix \<noteq> []" "hd ix = s" "s \<le> last ix"
    and rest: "covers_from (last ix + 1) (int (length ?bs)) (drop (Suc k) ?ixs)"
    by simp_all
  from rest have hi: "last ix + 1 \<le> int (length ?bs)"
    by (rule covers_from_le)
  define sl where "sl = py_slice ?bs (Some (hd ix)) (Some (last ix + 1))"
  have sl: "sl = take (nat (last ix + 1 - s)) (drop (nat s) ?bs)"
    unfolding sl_def using ix hi Cons.prems(2) by (simp add: py_slice_range)
  have e: "nat (last ix + 1) = nat (last ix + 1 - s) + nat s"
    using ix Cons.prems(2) by simp
  have split: "sl @ drop (nat (last ix + 1)) ?bs = drop (nat s) ?bs"
    by (simp only: sl e drop_drop [symmetric] append_take_drop_id)
  have len: "Suc k + length ls = length ?ixs"
    using Cons.prems(3) by simp
  have nn: "0 \<le> last ix + 1"
    using ix Cons.prems(2) by simp
  note IH = Cons.IH [OF rest nn len]
  have g: "py_getitem ?ixs (int k) = Inr ix" "py_getitem ix 0 = Inr (hd ix)"
          "py_getitem ix (- 1) = Inr (last ix)"
    using k ix by (simp_all add: ix_def py_getitem_nth py_getitem_hd py_getitem_last)
  let ?run = "interaction ops m d1 d2 H W ((k, l) # ?rest) (cls, x, c, a)"
  from interaction_step [OF g, of ops d1 d2 H W l ?rest cls x c a]
  consider (fail) e where "?run = (Inl e, [StageCall k ix sl a])"
    | (ok) cls' x' c' a' where
        "?run = (fst (interaction ops m d1 d2 H W ?rest (cls', x', c', a')),
                 StageCall k ix sl a # StageRet a' #
                 snd (interaction ops m d1 d2 H W ?rest (cls', x', c', a')))"
    unfolding sl_def by blast
  then have "prefix (blocks_run (snd ?run)) (drop (nat s) ?bs)
       \<and> ((\<exists>st'. fst ?run = Inr st') \<longrightarrow> blocks_run (snd ?run) = drop (nat s) ?bs)"
  proof cases
    case fail
    have "prefix sl (drop (nat s) ?bs)"
      by (simp only: sl take_is_prefix)
    with fail show ?thesis
      by simp
  next
    case ok
    let ?r = "interaction ops m d1 d2 H W ?rest (cls', x', c', a')"
    from IH [of "(cls', x', c', a')"]
    have p: "prefix (blocks_run (snd ?r)) (drop (nat (last ix + 1)) ?bs)"
      and q: "(\<exists>st'. fst ?r = Inr st') \<longrightarrow> blocks_run (snd ?r) = drop (nat (last ix + 1)) ?bs"
      by blast+
    have r1: "blocks_run (snd ?run) = sl @ blocks_run (snd ?r)" and r2: "fst ?run = fst ?r"
      by (simp_all only: ok fst_conv snd_conv blocks_run_StageCall blocks_run_StageRet)
    from p have "prefix (sl @ blocks_run (snd ?r)) (sl @ drop (nat (last ix + 1)) ?bs)"
      by (simp only: same_prefix_prefix)
    then have "prefix (blocks_run (snd ?run)) (drop (nat s) ?bs)"
      by (simp only: r1 split)
    moreover have "(\<exists>st'. fst ?run = Inr st') \<longrightarrow> blocks_run (snd ?run) = drop (nat s) ?bs"
      using q split by (simp only: r1 r2) metis
    ultimately show ?thesis
      by blast
  qed
  then show ?case
    unfolding st enumerate_from_Cons .
qed

lemma interaction_completes:
  assumes "covers_from s n (drop k (interaction_indexes m))"
      and "k + length ls = length (interaction_indexes m)"
      and "\<forall>l a. \<exists>r. op_layer ops l a = Inr r"
  shows "\<exists>st'. fst (interaction ops m d1 d2 H W (enumerate_from k ls) st) = Inr st'"
  using assms(1,2)
proof (induction ls arbitrary: k s st)
  case Nil
  show ?case
    by (rule exI [of _ st]) (simp add: ret_def)
next
  case (Cons l ls)
  obtain cls x c a where st: "st = (cls, x, c, a)"
    by (rule prod_cases4)
  let ?ixs = "interaction_indexes m"
  from Cons.prems(2) have k: "k < length ?ixs"
    by simp
  define ix where "ix = ?ixs ! k"
  from k have dr: "drop k ?ixs = ix # drop (Suc k) ?ixs"
    by (simp add: ix_def Cons_nth_drop_Suc)
  from Cons.prems(1) have "covers_from s n (ix # drop (Suc k) ?ixs)"
    by (simp only: dr)
  then have ix: "ix \<noteq> []" and rest: "covers_from (last ix + 1) n (drop (Suc k) ?ixs)"
    by simp_all
  have len: "Suc k + length ls = length ?ixs"
    using Cons.prems(2) by simp
  note IH = Cons.IH [OF rest len]
  have g: "py_getitem ?ixs (int k) = Inr ix" "py_getitem ix 0 = Inr (hd ix)"
          "py_getitem ix (- 1) = Inr (last ix)"
    using k ix by (simp_all add: ix_def py_getitem_nth py_getitem_hd py_getitem_last)
  obtain cls' x' c' a' where
    "stage_call ops m d1 d2 H W l ix (hd ix) (last ix) cls x c a = Inr (cls', x', c', a')"
    unfolding stage_call_def using assms(3) by (metis prod_cases4)
  then have "fst (interaction ops m d1 d2 H W ((k, l) # enumerate_from (Suc k) ls) (cls, x, c, a))
             = fst (interaction ops m d1 d2 H W (enumerate_from (Suc k) ls) (cls', x', c', a'))"
    unfolding interaction_Cons [OF g] by simp
  with IH [of "(cls', x', c', a')"] show ?case
    by (simp only: st enumerate_from_Cons)
qed

section \<open>What the phases of the forward pass log\<close>

lemma logs_in_ret [intro!]: "logs_in P (ret a)"
  by (simp add: logs_in_def ret_def)

lemma logs_in_raise [intro!]: "logs_in P (raise e)"
  by (simp add: logs_in_def raise_def)

lemma logs_in_lift [intro!]: "logs_in P (lift r)"
  by (simp add: logs_in_def lift_def)

lemma logs_in_call [intro!]: "P ev \<Longrightarrow> logs_in P (call ev r)"
  by (simp add: logs_in_def call_def)

lemma logs_in_bind [intro!]:
  "logs_in P m \<Longrightarrow> (\<And>a. logs_in P (f a)) \<Longrightarrow> logs_in P (bind m f)"
  by (cases "fst m") (simp_all add: logs_in_def snd_bind)

lemma logs_in_case_prod [intro!]:
  "(\<And>a b. logs_in P (f a b)) \<Longrightarrow> logs_in P (case p of (a, b) \<Rightarrow> f a b)"
  by (cases p) simp

lemma logs_in_if [intro!]:
  "(b \<Longrightarrow> logs_in P c) \<Longrightarrow> (\<not> b \<Longrightarrow> logs_in P d) \<Longrightarrow> logs_in P (if b then c else d)"
  by simp

lemma logs_in_py_assert [intro!]: "logs_in P (py_assert b msg)"
  by (simp add: py_assert_def logs_in_def ret_def raise_def)

text \<open>
  Every phase but the body of \<^verbatim>\<open>if self.add_vit_feature\<close> logs operations other than
  bilinear interpolation only; the loop logs stage events only.
\<close>

lemma logs_get_pos_embed:
  assumes "\<And>n. n \<noteq> OpInterpolate Bilinear \<Longrightarrow> P (Op n)"
  shows "logs_in P (get_pos_embed ops psize pe H W)"
  unfolding get_pos_embed_def by (intro logs_in_bind logs_in_call logs_in_ret assms) simp_all

lemma logs_add_level_embed:
  assumes "\<And>n. n \<noteq> OpInterpolate Bilinear \<Longrightarrow> P (Op n)"
  shows "logs_in P (add_level_embed ops lvl c2 c3 c4)"
  unfolding add_level_embed_def by (intro logs_in_bind logs_in_call logs_in_ret assms) simp_all

lemma logs_spm_forward:
  assumes "\<And>n. n \<noteq> OpInterpolate Bilinear \<Longrightarrow> P (Op n)"
  shows "logs_in P (spm_forward ops m x)"
  unfolding spm_forward_def
  by (intro logs_in_bind logs_in_call logs_in_ret logs_in_case_prod logs_add_level_embed assms)
     simp_all

lemma logs_patch_embedding_forward:
  assumes "\<And>n. n \<noteq> OpInterpolate Bilinear \<Longrightarrow> P (Op n)"
  shows "logs_in P (patch_embedding_forward ops m x)"
  unfolding patch_embedding_forward_def
  by (intro logs_in_bind logs_in_call logs_in_ret logs_in_lift logs_in_case_prod
        logs_get_pos_embed assms)
     simp_all

lemma logs_split_levels:
  assumes "\<And>n. n \<noteq> OpInterpolate Bilinear \<Longrightarrow> P (Op n)"
  shows "logs_in P (split_levels sz sl c c2 c3 c4)"
  unfolding split_levels_def
  by (intro logs_in_bind logs_in_call logs_in_ret logs_in_lift assms) simp_all

lemma logs_to_spatial:
  assumes "\<And>n. n \<noteq> OpInterpolate Bilinear \<Longrightarrow> P (Op n)"
  shows "logs_in P (to_spatial ops t shp)"
  unfolding to_spatial_def by (intro logs_in_bind logs_in_call logs_in_ret assms) simp_all

lemma logs_reshape_levels:
  assumes "\<And>n. n \<noteq> OpInterpolate Bilinear \<Longrightarrow> P (Op n)"
  shows "logs_in P (reshape_levels ops up_m bs dim H W c1 c2 c3 c4)"
  unfolding reshape_levels_def
  by (intro logs_in_bind logs_in_call logs_in_ret logs_to_spatial assms) simp_all

lemma logs_final_norm:
  assumes "\<And>n. n \<noteq> OpInterpolate Bilinear \<Longrightarrow> P (Op n)"
  shows "logs_in P (final_norm ops m cs)"
  unfolding final_norm_def
  by (intro logs_in_bind logs_in_call logs_in_ret logs_in_case_prod assms) simp_all

lemma logs_vit_feature: "logs_in is_op (vit_feature ops bs dim H W x c1 c2 c3 c4)"
  unfolding vit_feature_def
  by (intro logs_in_bind logs_in_call logs_in_ret logs_to_spatial) simp_all

lemma logs_interaction:
  assumes "\<And>i ix bs a. P (StageCall i ix bs a)" and "\<And>a. P (StageRet a)"
  shows "logs_in P (interaction ops m d1 d2 H W ls st)"
proof (induction ls arbitrary: st)
  case Nil
  show ?case by (simp add: logs_in_ret)
next
  case (Cons p ls)
  obtain i l where p: "p = (i, l)"
    by (cases p)
  obtain cls x c a where st: "st = (cls, x, c, a)"
    by (rule prod_cases4)
  show ?case
    unfolding p st interaction.simps
    by (intro logs_in_bind logs_in_call logs_in_lift logs_in_case_prod assms Cons.IH)
qed

lemma logs_conv_levels:
  assumes "\<And>n. n \<noteq> OpInterpolate Bilinear \<Longrightarrow> P (Op n)"
      and "\<And>i ix bs a. P (StageCall i ix bs a)" and "\<And>a. P (StageRet a)"
  shows "logs_in P (conv_levels ops m x)"
  unfolding conv_levels_def
  by (intro logs_in_bind logs_in_call logs_in_ret logs_in_case_prod logs_spm_forward
        logs_patch_embedding_forward logs_interaction logs_split_levels logs_reshape_levels assms)
     simp_all

end
